theory Spec2Isabelle
  imports Complex_Main "HOL-Library.Product_Lexorder"
begin

section \<open>Conventions\<close>

text \<open>
  The sources are Python 2 (\<^verbatim>\<open>print specs\<close> in begin.py, the tuple-parameter
  \<^verbatim>\<open>lambda (instance, nodeInfo): ...\<close> in provision_manager.py, \<^verbatim>\<open>subprocess32\<close>
  and \<^verbatim>\<open>__metaclass__\<close> in engine.py), and engine.py does not import
  \<^verbatim>\<open>division\<close> from \<^verbatim>\<open>__future__\<close>: \<^verbatim>\<open>/\<close> between two integer literals is floor
  division.  Python floats are modelled by the reals: every operation is the exact one,
  without the rounding of IEEE doubles.

  Exceptions are values of the type \<open>error\<close>; a function that may raise returns
  \<open>error + 'a\<close>, with \<open>Inl\<close> for the exception that leaves it.
\<close>

datatype error =
    ClientError
  | UserError
  | KeyError
  | ValueError
  | TypeError
  | UnboundLocalError
  | AttributeError
  | RuntimeError

text \<open>Sequencing: an exception raised by the first step leaves the whole.\<close>

definition and_then :: "error + 'a \<Rightarrow> ('a \<Rightarrow> error + 'b) \<Rightarrow> error + 'b" where
  "and_then r f = (case r of Inl e \<Rightarrow> Inl e | Inr x \<Rightarrow> f x)"

section \<open>Engine.remaining\_billing\_interval (provisioning/aws/engine.py)\<close>

text \<open>
  A naive UTC \<^verbatim>\<open>datetime\<close> is the number of microseconds since the epoch, and so is a
  \<^verbatim>\<open>timedelta\<close>; \<^verbatim>\<open>total_seconds()\<close> divides by \<open>10^6\<close>.
\<close>

type_synonym datetime = int
type_synonym timedelta = int

definition total_seconds :: "timedelta \<Rightarrow> real" where
  "total_seconds d = real_of_int d / 1000000"

text \<open>Python's \<^verbatim>\<open>x % y\<close> on floats, for \<open>y \<noteq> 0\<close>: the result has the sign of \<open>y\<close>.\<close>

definition py_fmod :: "real \<Rightarrow> real \<Rightarrow> real" where
  "py_fmod x y = x - y * real_of_int \<lfloor>x / y\<rfloor>"

text \<open>
  \<^verbatim>\<open>
  launch_time = self.instance.launch_time
  launch_time = launch_time.replace(tzinfo=None)
  now = datetime.datetime.utcnow()
  delta = now - launch_time
  return 1.0 - ((delta.total_seconds() / 3600.0) % 1.0)
  \<close>
  The instance's launch time and the clock are the two inputs.
\<close>

definition remaining_billing_interval :: "datetime \<Rightarrow> datetime \<Rightarrow> real" where
  "remaining_billing_interval launch_time now =
     (let delta = now - launch_time
      in 1.0 - py_fmod (total_seconds delta / 3600.0) 1.0)"

section \<open>Worker (provisioning/provision\_manager.py)\<close>

text \<open>
  The part of Python's attribute protocol that the class \<^verbatim>\<open>Worker\<close> exercises.  An
  object is its instance dictionary.  A class maps a name to the \<^verbatim>\<open>property\<close> defined
  under it.  Every getter of \<^verbatim>\<open>Worker\<close> has the body \<^verbatim>\<open>return self.<attr>\<close>, which
  \<open>ReturnSelfAttr\<close> records; \<open>fset\<close> is \<open>None\<close> for a property without a setter.
\<close>

type_synonym 'v obj = "string \<rightharpoonup> 'v"

datatype getter = ReturnSelfAttr string

record 'v property =
  fget :: getter
  fset :: "('v obj \<Rightarrow> 'v \<Rightarrow> error + 'v obj) option"

type_synonym 'v pyclass = "string \<rightharpoonup> 'v property"

text \<open>
  \<^verbatim>\<open>self.a = v\<close>: a property found on the class takes the assignment, and
  \<^verbatim>\<open>property.__set__\<close> raises AttributeError ("can't set attribute") when there is no
  setter; otherwise the value goes into the instance dictionary.
\<close>

definition setattr :: "'v pyclass \<Rightarrow> 'v obj \<Rightarrow> string \<Rightarrow> 'v \<Rightarrow> error + 'v obj" where
  "setattr cls self a v =
     (case cls a of
        Some p \<Rightarrow> (case fset p of None \<Rightarrow> Inl AttributeError | Some f \<Rightarrow> f self v)
      | None \<Rightarrow> Inr (self(a \<mapsto> v)))"

text \<open>
  \<^verbatim>\<open>self.a\<close>: a property found on the class runs its getter, which here reads another
  attribute of \<^verbatim>\<open>self\<close>; otherwise the instance dictionary is consulted.  Running a
  getter is a call and takes a frame of the interpreter's stack; \<open>depth\<close> is the number
  of frames left before the recursion limit (\<^verbatim>\<open>sys.getrecursionlimit()\<close>, 1000 unless
  changed), and a call with none left raises RuntimeError ("maximum recursion depth
  exceeded").
\<close>

fun getattr :: "'v pyclass \<Rightarrow> 'v obj \<Rightarrow> nat \<Rightarrow> string \<Rightarrow> error + 'v" where
  "getattr cls self 0 a =
     (case cls a of
        Some p \<Rightarrow> Inl RuntimeError
      | None \<Rightarrow> (case self a of Some v \<Rightarrow> Inr v | None \<Rightarrow> Inl AttributeError))"
| "getattr cls self (Suc depth) a =
     (case cls a of
        Some p \<Rightarrow> (case fget p of ReturnSelfAttr b \<Rightarrow> getattr cls self depth b)
      | None \<Rightarrow> (case self a of Some v \<Rightarrow> Inr v | None \<Rightarrow> Inl AttributeError))"

definition recursion_limit :: nat where
  "recursion_limit = 1000"

text \<open>The six \<^verbatim>\<open>@property\<close> definitions of the class, none with a setter.\<close>

definition Worker_properties :: "string list" where
  "Worker_properties =
     [''publicIP'', ''privateIP'', ''name'', ''launchTime'', ''nodeType'', ''preemptible'']"

definition Worker :: "'v pyclass" where
  "Worker a =
     (if a \<in> set Worker_properties
      then Some \<lparr>fget = ReturnSelfAttr a, fset = None\<rparr>
      else None)"

text \<open>\<^verbatim>\<open>Worker.__init__\<close>: six assignments in the order of the source.\<close>

definition Worker_init ::
  "'v obj \<Rightarrow> 'v \<Rightarrow> 'v \<Rightarrow> 'v \<Rightarrow> 'v \<Rightarrow> 'v \<Rightarrow> 'v \<Rightarrow> error + 'v obj" where
  "Worker_init self publicIP privateIP name launchTime nodeType preemptible =
     and_then (setattr Worker self ''publicIP'' publicIP) (\<lambda>self.
     and_then (setattr Worker self ''privateIP'' privateIP) (\<lambda>self.
     and_then (setattr Worker self ''name'' name) (\<lambda>self.
     and_then (setattr Worker self ''launchTime'' launchTime) (\<lambda>self.
     and_then (setattr Worker self ''nodeType'' nodeType) (\<lambda>self.
     setattr Worker self ''preemptible'' preemptible)))))"

text \<open>\<^verbatim>\<open>Worker(...)\<close>: a fresh object with an empty dictionary, then \<^verbatim>\<open>__init__\<close>.\<close>

definition Worker_new :: "'v \<Rightarrow> 'v \<Rightarrow> 'v \<Rightarrow> 'v \<Rightarrow> 'v \<Rightarrow> 'v \<Rightarrow> error + 'v obj" where
  "Worker_new publicIP privateIP name launchTime nodeType preemptible =
     Worker_init Map.empty publicIP privateIP name launchTime nodeType preemptible"

section \<open>ProvisionManager (provisioning/provision\_manager.py)\<close>

text \<open>
  Of a provider instance the manager reads \<^verbatim>\<open>id\<close> and \<^verbatim>\<open>private_ip_address\<close>; of a
  \<^verbatim>\<open>NodeInfo\<close> (resource_manager.py) the \<^verbatim>\<open>workers\<close> field.
\<close>

record ec2_instance =
  inst_id :: string
  private_ip_address :: string

record NodeInfo =
  cores :: real
  memory :: real
  workers :: int

text \<open>
  \<^verbatim>\<open>self.resManager\<close> is \<open>None\<close> when it is not a \<^verbatim>\<open>ResourceManager\<close>; otherwise it
  is its \<^verbatim>\<open>get_nodes\<close>, from the preemptibility to a dictionary keyed by private IP.
  The methods \<^verbatim>\<open>_getWorkersInCluster\<close>, \<^verbatim>\<open>_addNodes\<close>, \<^verbatim>\<open>_logAndTerminate\<close> and
  \<^verbatim>\<open>_remainingBillingInterval\<close> are called by the class and defined nowhere in the
  repository: they are parameters.  The two that change the fleet are recorded as calls.
\<close>

type_synonym resManager = "(bool \<Rightarrow> string \<rightharpoonup> NodeInfo) option"

datatype call =
    AddNodes int bool
  | LogAndTerminate "ec2_instance list"

text \<open>Python's \<^verbatim>\<open>xs[:n]\<close>; a negative \<open>n\<close> counts from the end.\<close>

definition slice_to :: "'a list \<Rightarrow> int \<Rightarrow> 'a list" where
  "slice_to xs n = (if 0 \<le> n then take (nat n) xs else take (length xs - nat (- n)) xs)"

text \<open>
  \<^verbatim>\<open>
  for instance, nodeInfo in nodes:
      if force:
          nodesToTerminate.append((instance, nodeInfo))
      elif nodeInfo is not None and nodeInfo.workers < 1:
          nodesToTerminate.append((instance, nodeInfo))
      else:
          log.debug(...)
  \<close>
\<close>

fun exclude_busy :: "bool \<Rightarrow> (ec2_instance \<times> NodeInfo option) list \<Rightarrow> (ec2_instance \<times> NodeInfo option) list" where
  "exclude_busy force [] = []"
| "exclude_busy force ((inst, nodeInfo) # nodes) =
     (if force then (inst, nodeInfo) # exclude_busy force nodes
      else (case nodeInfo of
              Some info \<Rightarrow>
                (if workers info < 1 then (inst, nodeInfo) # exclude_busy force nodes
                 else exclude_busy force nodes)
            | None \<Rightarrow> exclude_busy force nodes))"

text \<open>
  The sort key \<^verbatim>\<open>(nodeInfo.workers if nodeInfo else 1, self._remainingBillingInterval(instance))\<close>;
  tuples compare lexicographically and \<^verbatim>\<open>list.sort\<close> is stable, as \<open>sort_key\<close> is.
\<close>

definition terminate_key :: "(ec2_instance \<Rightarrow> real) \<Rightarrow> ec2_instance \<times> NodeInfo option \<Rightarrow> int \<times> real" where
  "terminate_key rbi t =
     (case t of (inst, nodeInfo) \<Rightarrow>
        ((case nodeInfo of Some info \<Rightarrow> workers info | None \<Rightarrow> 1), rbi inst))"

text \<open>
  \<^verbatim>\<open>__removeNodes(instances, numNodes, preemptible, force)\<close>: the number of instances
  handed to \<^verbatim>\<open>_logAndTerminate\<close>, and the calls made.  In the branch without load
  information the truncation to \<^verbatim>\<open>numNodes\<close> is commented out in the source:
  \<^verbatim>\<open>
  instances = sorted(instances, key=self._remainingBillingInterval)
  #instances = [instance for instance in islice(instances, numNodes)]
  \<close>
\<close>

definition removeNodes ::
  "resManager \<Rightarrow> (ec2_instance \<Rightarrow> real) \<Rightarrow> ec2_instance list \<Rightarrow> int \<Rightarrow> bool \<Rightarrow> bool \<Rightarrow> int \<times> call list" where
  "removeNodes resMgr rbi instances numNodes preemptible force =
     (let instances' =
        (case resMgr of
           Some get_nodes \<Rightarrow>
             (let nodes = get_nodes preemptible;
                  nodes = map (\<lambda>inst. (inst, nodes (private_ip_address inst))) instances;
                  nodesToTerminate = exclude_busy force nodes;
                  nodesToTerminate = sort_key (terminate_key rbi) nodesToTerminate;
                  nodesToTerminate =
                    (if \<not> force then filter (\<lambda>nodeTuple. rbi (fst nodeTuple) \<le> 0.15) nodesToTerminate
                     else nodesToTerminate);
                  nodesToTerminate = slice_to nodesToTerminate numNodes
              in map fst nodesToTerminate)
         | None \<Rightarrow> sort_key rbi instances)
      in (int (length instances'),
          if instances' \<noteq> [] then [LogAndTerminate instances'] else []))"

text \<open>
  \<^verbatim>\<open>set_node_count(numNodes, preemptible, force)\<close>: the returned count and the calls
  made.  \<open>workerInstances\<close> is what \<^verbatim>\<open>_getWorkersInCluster(preemptible)\<close> returned and
  \<open>addNodes\<close> gives the number of nodes that \<^verbatim>\<open>_addNodes\<close> reports as added.
\<close>

definition set_node_count ::
  "resManager \<Rightarrow> (ec2_instance \<Rightarrow> real) \<Rightarrow> ec2_instance list \<Rightarrow> (ec2_instance list \<Rightarrow> int \<Rightarrow> bool \<Rightarrow> int)
     \<Rightarrow> int \<Rightarrow> bool \<Rightarrow> bool \<Rightarrow> int \<times> call list" where
  "set_node_count resMgr rbi workerInstances addNodes numNodes preemptible force =
     (let numCurrentNodes = int (length workerInstances);
          delta = numNodes - numCurrentNodes
      in if delta > 0 then
           (numCurrentNodes + addNodes workerInstances delta preemptible,
            [AddNodes delta preemptible])
         else if delta < 0 then
           (case removeNodes resMgr rbi workerInstances (- delta) preemptible force of
              (removed, calls) \<Rightarrow> (numCurrentNodes - removed, calls))
         else (numNodes, []))"

text \<open>A small fleet for the concrete evaluations below.\<close>

definition node_a :: ec2_instance where
  "node_a = \<lparr>inst_id = ''i-a'', private_ip_address = ''10.0.0.1''\<rparr>"

definition node_b :: ec2_instance where
  "node_b = \<lparr>inst_id = ''i-b'', private_ip_address = ''10.0.0.2''\<rparr>"

definition node_c :: ec2_instance where
  "node_c = \<lparr>inst_id = ''i-c'', private_ip_address = ''10.0.0.3''\<rparr>"

definition fleet_rbi :: "ec2_instance \<Rightarrow> real" where
  "fleet_rbi inst =
     (if inst_id inst = ''i-a'' then 0.10 else if inst_id inst = ''i-b'' then 0.05 else 0.90)"

text \<open>Node a is idle, node b runs one worker, node c is unknown to the resource manager.\<close>

definition fleet_nodes :: "bool \<Rightarrow> string \<rightharpoonup> NodeInfo" where
  "fleet_nodes preemptible =
     [''10.0.0.1'' \<mapsto> \<lparr>cores = 0, memory = 0, workers = 0\<rparr>,
      ''10.0.0.2'' \<mapsto> \<lparr>cores = 0.5, memory = 0.5, workers = 1\<rparr>]"

definition no_addNodes :: "ec2_instance list \<Rightarrow> int \<Rightarrow> bool \<Rightarrow> int" where
  "no_addNodes workerInstances numNodes preemptible = 0"

definition all_addNodes :: "ec2_instance list \<Rightarrow> int \<Rightarrow> bool \<Rightarrow> int" where
  "all_addNodes workerInstances numNodes preemptible = numNodes"

section \<open>Spot bidding (provisioning/aws/engine.py, utils.py)\<close>

text \<open>
  \<^verbatim>\<open>round(x, n)\<close> of Python 2: to \<open>n\<close> decimals, halves away from zero.
\<close>

definition py_round :: "real \<Rightarrow> nat \<Rightarrow> real" where
  "py_round x n =
     (if 0 \<le> x then real_of_int \<lfloor>x * 10 ^ n + 1 / 2\<rfloor> / 10 ^ n
      else - (real_of_int \<lfloor>- x * 10 ^ n + 1 / 2\<rfloor> / 10 ^ n))"

text \<open>
  utils.py: \<^verbatim>\<open>mean\<close> turns the ZeroDivisionError of an empty input into ValueError;
  \<^verbatim>\<open>std_dev\<close> is \<^verbatim>\<open>sqrt(sum((x - m) ** 2 for x in xs) / float(len(xs)))\<close>.
\<close>

definition mean :: "real list \<Rightarrow> error + real" where
  "mean xs = (if xs = [] then Inl ValueError else Inr (sum_list xs / real (length xs)))"

definition std_dev :: "real list \<Rightarrow> error + real" where
  "std_dev xs =
     and_then (mean xs) (\<lambda>m.
       Inr (sqrt (sum_list (map (\<lambda>x. (x - m) ^ 2) xs) / real (length xs))))"

text \<open>
  An entry of the spot price history, of which the code reads the zone and the price;
  \<open>SpotPrice\<close> is the value of \<^verbatim>\<open>float(pr['SpotPrice'])\<close>.  The history is the result
  of \<^verbatim>\<open>__get_spot_history\<close>: the last week, most recent entry first.
\<close>

record spot_price =
  AvailabilityZone :: string
  SpotPrice :: real

record BestAvZone =
  name :: string
  price_deviation :: real

text \<open>\<^verbatim>\<open>min(xs, key=f)\<close> and \<^verbatim>\<open>max(xs)\<close>: the first extremal element, ValueError on \<open>[]\<close>.\<close>

fun first_min_by :: "('a \<Rightarrow> real) \<Rightarrow> 'a \<Rightarrow> 'a list \<Rightarrow> 'a" where
  "first_min_by f m [] = m"
| "first_min_by f m (x # xs) = first_min_by f (if f x < f m then x else m) xs"

definition py_min_key :: "('a \<Rightarrow> real) \<Rightarrow> 'a list \<Rightarrow> error + 'a" where
  "py_min_key f xs = (case xs of [] \<Rightarrow> Inl ValueError | x # xs' \<Rightarrow> Inr (first_min_by f x xs'))"

definition py_min :: "real list \<Rightarrow> error + real" where
  "py_min xs = py_min_key (\<lambda>x. x) xs"

definition py_max :: "real list \<Rightarrow> error + real" where
  "py_max xs = (case xs of [] \<Rightarrow> Inl ValueError | x # xs' \<Rightarrow> Inr (fold max xs' x))"

text \<open>
  \<^verbatim>\<open>
  def check_spot_prices(spot_hist):
      sh = [round(float(pr['SpotPrice']),4) for pr in spot_hist]
      if sh:
          avg = mean(sh)
          smaller = min(sh)
          return (smaller, round(avg,4))
  \<close>
  With an empty history the function returns \<^verbatim>\<open>None\<close>, which is the result \<open>None\<close> here.
\<close>

definition check_spot_prices :: "spot_price list \<Rightarrow> error + (real \<times> real) option" where
  "check_spot_prices spot_hist =
     (let sh = map (\<lambda>pr. py_round (SpotPrice pr) 4) spot_hist
      in if sh \<noteq> [] then
           and_then (mean sh) (\<lambda>avg.
           and_then (py_min sh) (\<lambda>smaller.
             Inr (Some (smaller, py_round avg 4))))
         else Inr None)"

text \<open>
  The loop over the availability zones.  \<open>zone_hists\<close> is created once, before the loop,
  and each iteration appends the entries of its zone to it:
  \<^verbatim>\<open>
  for zone in zones['AvailabilityZones']:
      resp = [zone_hists.append(zh) for zh in spot_hist if zh['AvailabilityZone'] == zone['ZoneName']]
      recent_price = 0.0
      if zone_hists:
          prices = [round(float(hp['SpotPrice']),4) for hp in zone_hists]
          price_dev = std_dev(prices)
          recent_price = round(float(zone_hists[0]['SpotPrice']),4)
          best_zone = BestAvZone(name=zone['ZoneName'], price_deviation=price_dev)
      else:
          price_dev, recent_price = 0.0, bid_price
          best_zone = BestAvZone(name=zone['ZoneName'], price_deviation=price_dev)
      (markets_over_bid, markets_under_bid)[recent_price < bid_price].append(best_zone)
  \<close>
  The state is \<open>(zone_hists, markets_over_bid, markets_under_bid)\<close>.
\<close>

type_synonym markets = "spot_price list \<times> BestAvZone list \<times> BestAvZone list"

definition rate_zone :: "spot_price list \<Rightarrow> real \<Rightarrow> string \<Rightarrow> markets \<Rightarrow> error + markets" where
  "rate_zone spot_hist bid_price zone st =
     (case st of (zone_hists, markets_over_bid, markets_under_bid) \<Rightarrow>
       (let zone_hists = zone_hists @ filter (\<lambda>zh. AvailabilityZone zh = zone) spot_hist
        in and_then
             (case zone_hists of
                [] \<Rightarrow> Inr (0, bid_price)
              | zh # _ \<Rightarrow>
                  and_then (std_dev (map (\<lambda>hp. py_round (SpotPrice hp) 4) zone_hists))
                    (\<lambda>price_dev. Inr (price_dev, py_round (SpotPrice zh) 4)))
             (\<lambda>(price_dev, recent_price).
                (let best_zone = \<lparr>name = zone, price_deviation = price_dev\<rparr>
                 in if recent_price < bid_price
                    then Inr (zone_hists, markets_over_bid, markets_under_bid @ [best_zone])
                    else Inr (zone_hists, markets_over_bid @ [best_zone], markets_under_bid)))))"

fun rate_zones :: "spot_price list \<Rightarrow> real \<Rightarrow> string list \<Rightarrow> markets \<Rightarrow> error + markets" where
  "rate_zones spot_hist bid_price [] st = Inr st"
| "rate_zones spot_hist bid_price (zone # zones) st =
     and_then (rate_zone spot_hist bid_price zone st) (rate_zones spot_hist bid_price zones)"

text \<open>
  \<^verbatim>\<open>__optimize_spot_bid(instance_type, bid_price)\<close>, on the history and the zone names
  that the two provider queries returned.  \<^verbatim>\<open>25/100\<close> is a division of integers.
  \<^verbatim>\<open>
  stable_zone = min(markets_under_bid or markets_over_bid,
                    key=attrgetter('price_deviation')).name
  sm, avg = check_spot_prices(spot_hist)
  if bid_price > (avg*2.0):
      bid_price = avg + ((25/100)*avg)
  if bid_price <= sm:
      bid_price = sm + ((25/100)*sm)
  return (stable_zone, bid_price)
  \<close>
  Unpacking the \<^verbatim>\<open>None\<close> of an empty history raises TypeError.
\<close>

definition optimize_spot_bid :: "spot_price list \<Rightarrow> string list \<Rightarrow> real \<Rightarrow> error + (string \<times> real)" where
  "optimize_spot_bid spot_hist zones bid_price =
     and_then (rate_zones spot_hist bid_price zones ([], [], [])) (\<lambda>(zone_hists, markets_over_bid, markets_under_bid).
     and_then (py_min_key price_deviation
                 (if markets_under_bid \<noteq> [] then markets_under_bid else markets_over_bid)) (\<lambda>best.
     and_then (check_spot_prices spot_hist) (\<lambda>r.
       (case r of
          None \<Rightarrow> Inl TypeError
        | Some (sm, avg) \<Rightarrow>
            (let stable_zone = name best;
                 bid_price = (if bid_price > avg * 2.0
                              then avg + (real_of_int (25 div 100) * avg) else bid_price);
                 bid_price = (if bid_price \<le> sm
                              then sm + (real_of_int (25 div 100) * sm) else bid_price)
             in Inr (stable_zone, bid_price))))))"

text \<open>
  \<^verbatim>\<open>
  def __fix_spot( self, instance_type, bid=None):
      if not bid:
          _hist = self.__get_spot_history(instance_type)
          _prices = [round(float(pr['SpotPrice']),4) for pr in _hist]
          mx =  max(_prices)
          bid = mx - ((25/100)*mx) # 25% less than the highest price
      best_zone,best_bid = self.__optimize_spot_bid( instance_type, bid )
      return BestAvZone(name=best_zone,price_deviation=best_bid)
  \<close>
  \<^verbatim>\<open>not bid\<close> holds of \<^verbatim>\<open>None\<close> and of 0.  Both queries of the history are taken to
  return the same list.
\<close>

definition seed_bid :: "spot_price list \<Rightarrow> error + real" where
  "seed_bid spot_hist =
     (let prices = map (\<lambda>pr. py_round (SpotPrice pr) 4) spot_hist
      in and_then (py_max prices) (\<lambda>mx. Inr (mx - (real_of_int (25 div 100) * mx))))"

definition fix_spot :: "spot_price list \<Rightarrow> string list \<Rightarrow> real option \<Rightarrow> error + BestAvZone" where
  "fix_spot spot_hist zones bid =
     and_then (case bid of
                 None \<Rightarrow> seed_bid spot_hist
               | Some b \<Rightarrow> if b = 0 then seed_bid spot_hist else Inr b) (\<lambda>bid.
     and_then (optimize_spot_bid spot_hist zones bid) (\<lambda>(best_zone, best_bid).
       Inr \<lparr>name = best_zone, price_deviation = best_bid\<rparr>))"

definition week_a :: "spot_price list" where
  "week_a =
     [\<lparr>AvailabilityZone = ''zoneA'', SpotPrice = 0.11\<rparr>,
      \<lparr>AvailabilityZone = ''zoneA'', SpotPrice = 0.12\<rparr>,
      \<lparr>AvailabilityZone = ''zoneA'', SpotPrice = 0.10\<rparr>,
      \<lparr>AvailabilityZone = ''zoneB'', SpotPrice = 0.50\<rparr>]"

definition week_b :: "spot_price list" where
  "week_b =
     [\<lparr>AvailabilityZone = ''zoneA'', SpotPrice = 0.10\<rparr>,
      \<lparr>AvailabilityZone = ''zoneB'', SpotPrice = 0.30\<rparr>,
      \<lparr>AvailabilityZone = ''zoneA'', SpotPrice = 0.50\<rparr>]"

definition week_c :: "spot_price list" where
  "week_c =
     [\<lparr>AvailabilityZone = ''zoneA'', SpotPrice = 0.30\<rparr>,
      \<lparr>AvailabilityZone = ''zoneA'', SpotPrice = 0.10\<rparr>]"

text \<open>
  The zone choice as the specification words it, for comparison with the code: each
  zone is rated on its own samples (deviation 0 and recent price = the bid when it has
  none), the zones whose most recent price is below the bid are preferred, and the zone
  of least deviation is chosen.
\<close>

definition spec_rate_zone :: "spot_price list \<Rightarrow> real \<Rightarrow> string \<Rightarrow> error + (BestAvZone \<times> real)" where
  "spec_rate_zone spot_hist bid_price zone =
     (case filter (\<lambda>zh. AvailabilityZone zh = zone) spot_hist of
        [] \<Rightarrow> Inr (\<lparr>name = zone, price_deviation = 0\<rparr>, bid_price)
      | zh # zhs \<Rightarrow>
          and_then (std_dev (map SpotPrice (zh # zhs))) (\<lambda>price_dev.
            Inr (\<lparr>name = zone, price_deviation = price_dev\<rparr>, SpotPrice zh)))"

fun spec_rate_zones :: "spot_price list \<Rightarrow> real \<Rightarrow> string list \<Rightarrow> error + (BestAvZone \<times> real) list" where
  "spec_rate_zones spot_hist bid_price [] = Inr []"
| "spec_rate_zones spot_hist bid_price (zone # zones) =
     and_then (spec_rate_zone spot_hist bid_price zone) (\<lambda>r.
     and_then (spec_rate_zones spot_hist bid_price zones) (\<lambda>rs. Inr (r # rs)))"

definition spec_preferred_zone :: "spot_price list \<Rightarrow> string list \<Rightarrow> real \<Rightarrow> error + string" where
  "spec_preferred_zone spot_hist zones bid_price =
     and_then (spec_rate_zones spot_hist bid_price zones) (\<lambda>rated.
       (let under_bid = map fst (filter (\<lambda>r. snd r < bid_price) rated);
            over_bid = map fst (filter (\<lambda>r. \<not> snd r < bid_price) rated)
        in and_then (py_min_key price_deviation (if under_bid \<noteq> [] then under_bid else over_bid))
             (\<lambda>best. Inr (name best))))"

section \<open>Spot fulfilment (provisioning/aws/ec2\_instance.py)\<close>

text \<open>
  A spot request as \<^verbatim>\<open>describe_spot_instance_requests\<close> reports it: \<^verbatim>\<open>r['State']\<close>,
  \<^verbatim>\<open>r['Status']['Code']\<close> and \<^verbatim>\<open>r['InstanceId']\<close>.
\<close>

record spot_request =
  State :: string
  Status_Code :: string
  InstanceId :: string

text \<open>
  The body of \<^verbatim>\<open>for r in resp\<close>.  \<^verbatim>\<open>continue\<close> goes on with the next \<open>r\<close>.  The
  result is the exception raised, or the instance id returned from inside the loop
  (if any) with the value of \<^verbatim>\<open>count_tries\<close>.
  \<^verbatim>\<open>
  for r in resp:
      if r['State'] == 'failed':
          raise UserError(message=msg)
      if r['State'] == 'open':
          time.sleep(5)
          count_tries += 1
          continue
      if r['State'] == 'active' and r['Status']['Code'] == 'fulfilled':
          return r['InstanceId']
  \<close>
\<close>

fun scan_requests :: "spot_request list \<Rightarrow> nat \<Rightarrow> error + (string option \<times> nat)" where
  "scan_requests [] count_tries = Inr (None, count_tries)"
| "scan_requests (r # resp) count_tries =
     (if State r = ''failed'' then Inl UserError
      else if State r = ''open'' then scan_requests resp (count_tries + 1)
      else if State r = ''active'' \<and> Status_Code r = ''fulfilled''
           then Inr (Some (InstanceId r), count_tries)
      else scan_requests resp count_tries)"

text \<open>
  \<^verbatim>\<open>while count_tries < 10\<close>: \<open>describe k\<close> is what the \<open>k\<close>-th query for the request
  answers (a provider error, or the list of requests).  When the loop ends the
  function falls off its end and returns \<^verbatim>\<open>None\<close>: the result \<open>Inr None\<close>.  A loop
  that never ends has the value \<open>None\<close>.
\<close>

partial_function (option) poll_spot_request ::
  "(nat \<Rightarrow> error + spot_request list) \<Rightarrow> nat \<Rightarrow> nat \<Rightarrow> (error + string option) option" where
  "poll_spot_request describe k count_tries =
     (if count_tries < 10 then
        (case describe k of
           Inl e \<Rightarrow> Some (Inl e)
         | Inr resp \<Rightarrow>
             (case scan_requests resp count_tries of
                Inl e \<Rightarrow> Some (Inl e)
              | Inr (Some i, c) \<Rightarrow> Some (Inr (Some i))
              | Inr (None, c) \<Rightarrow> poll_spot_request describe (k + 1) c))
      else Some (Inr None))"

definition wait_spot_requests_fullfilled ::
  "(nat \<Rightarrow> error + spot_request list) \<Rightarrow> (error + string option) option" where
  "wait_spot_requests_fullfilled describe = poll_spot_request describe 0 0"

section \<open>Engine.create (provisioning/aws/engine.py)\<close>

text \<open>
  The provider, as far as \<open>create\<close> calls it.  An instance is its id.
  \<^item> \<open>create_instances count\<close>: the outcome of \<^verbatim>\<open>create_ec2_instances\<close>;
  \<^item> \<open>request_spot_instances price count\<close>: the outcome of \<^verbatim>\<open>create_ec2_spot_instances\<close>,
    the ids of the spot requests;
  \<^item> \<open>describe_spot_instance_requests req k\<close>: the answer to the \<open>k\<close>-th query for \<open>req\<close>;
  \<^item> \<open>Instance\<close>: \<^verbatim>\<open>env.ec2.Instance(inst_id)\<close>, applied to whatever the wait returned;
  \<^item> \<open>create_tags\<close>: the tagging call of \<^verbatim>\<open>embed\<close>, \<open>None\<close> when it succeeds;
  \<^item> \<open>terminate\<close>: \<^verbatim>\<open>Instance(p_id).terminate()\<close>, \<open>None\<close> when it succeeds.
\<close>

record provider =
  create_instances :: "int \<Rightarrow> error + string list"
  request_spot_instances :: "real \<Rightarrow> int \<Rightarrow> error + string list"
  describe_spot_instance_requests :: "string \<Rightarrow> nat \<Rightarrow> error + spot_request list"
  Instance :: "string option \<Rightarrow> error + string"
  create_tags :: "string \<Rightarrow> error option"
  terminate :: "string \<Rightarrow> error option"

text \<open>
  Of the arguments only \<^verbatim>\<open>BidPrice\<close> and \<^verbatim>\<open>MaxCount\<close> steer \<open>create\<close>.  The state of a
  call: the list \<open>engines\<close>, the set \<open>pending_ids\<close> (a list without duplicates), the
  instance bound to the engine (\<^verbatim>\<open>self.__instance\<close>), its \<open>cluster_ordinal\<close>, the
  counter behind \<^verbatim>\<open>next(cluster_ordinal)\<close>, and the terminate calls issued so far.
\<close>

record arguments =
  BidPrice :: "real option"
  MaxCount :: int

record create_state =
  engines :: "string list"
  pending_ids :: "string list"
  bound_instance :: "string option"
  cluster_ordinal :: "int option"
  next_ordinal :: int
  terminated :: "string list"

text \<open>
  \<^verbatim>\<open>
  def store_instance( instance ):
      pending_ids.add( instance.id )
      self.embed( instance, next( cluster_ordinal ) )
      engines.append( instance )
  \<close>
  \<open>embed\<close> binds the instance and the ordinal before it tags; an exception of the
  tagging call leaves the state as it is then, the instance in \<open>pending_ids\<close> and bound
  but not in \<open>engines\<close>.  (The random cluster name that \<open>embed\<close> assigns is left out.)
\<close>

definition store_instance :: "provider \<Rightarrow> string \<Rightarrow> create_state \<Rightarrow> error option \<times> create_state" where
  "store_instance env inst st =
     (let st = st\<lparr>pending_ids := List.insert inst (pending_ids st)\<rparr>;
          st = st\<lparr>bound_instance := Some inst,
                  cluster_ordinal := Some (next_ordinal st),
                  next_ordinal := next_ordinal st + 1\<rparr>
      in case create_tags env inst of
           Some e \<Rightarrow> (Some e, st)
         | None \<Rightarrow> (None, st\<lparr>engines := engines st @ [inst]\<rparr>))"

text \<open>\<^verbatim>\<open>for inst in instances: store_instance( inst )\<close>\<close>

fun store_instances :: "provider \<Rightarrow> string list \<Rightarrow> create_state \<Rightarrow> error option \<times> create_state" where
  "store_instances env [] st = (None, st)"
| "store_instances env (inst # instances) st =
     (case store_instance env inst st of
        (Some e, st') \<Rightarrow> (Some e, st')
      | (None, st') \<Rightarrow> store_instances env instances st')"

text \<open>
  \<^verbatim>\<open>
  for spot in instances['SpotInstanceRequests']:
      inst_id = wait_spot_requests_fullfilled(self.env, spot['SpotInstanceRequestId'])
      inst = self.env.ec2.Instance(inst_id)
      store_instance(inst)
  \<close>
  The result is \<open>None\<close> when a wait never returns.
\<close>

fun fulfil_requests :: "provider \<Rightarrow> string list \<Rightarrow> create_state \<Rightarrow> (error option \<times> create_state) option" where
  "fulfil_requests env [] st = Some (None, st)"
| "fulfil_requests env (spot # spots) st =
     (case wait_spot_requests_fullfilled (describe_spot_instance_requests env spot) of
        None \<Rightarrow> None
      | Some (Inl e) \<Rightarrow> Some (Some e, st)
      | Some (Inr i) \<Rightarrow>
          (case Instance env i of
             Inl e \<Rightarrow> Some (Some e, st)
           | Inr inst \<Rightarrow>
               (case store_instance env inst st of
                  (Some e, st') \<Rightarrow> Some (Some e, st')
                | (None, st') \<Rightarrow> fulfil_requests env spots st')))"

text \<open>
  The body of the \<^verbatim>\<open>try\<close>.  \<^verbatim>\<open>user_text\<close> is assigned only under \<^verbatim>\<open>if user_data:\<close>;
  without user data, evaluating the argument \<^verbatim>\<open>usr_data=user_text\<close> raises
  UnboundLocalError before the provider is called.  (Reading the user data file is
  taken to succeed.)
\<close>

definition user_text_unbound :: "string option \<Rightarrow> bool" where
  "user_text_unbound user_data = (case user_data of None \<Rightarrow> True | Some path \<Rightarrow> path = [])"

definition submit_spot ::
  "provider \<Rightarrow> real \<Rightarrow> arguments \<Rightarrow> string option \<Rightarrow> create_state \<Rightarrow> (error option \<times> create_state) option" where
  "submit_spot env price args user_data st =
     (if user_text_unbound user_data then Some (Some UnboundLocalError, st)
      else case request_spot_instances env price (MaxCount args) of
             Inl e \<Rightarrow> Some (Some e, st)
           | Inr spots \<Rightarrow> fulfil_requests env spots st)"

definition submit_on_demand ::
  "provider \<Rightarrow> arguments \<Rightarrow> string option \<Rightarrow> create_state \<Rightarrow> (error option \<times> create_state) option" where
  "submit_on_demand env args user_data st =
     (if user_text_unbound user_data then Some (Some UnboundLocalError, st)
      else case create_instances env (MaxCount args) of
             Inl e \<Rightarrow> Some (Some e, st)
           | Inr instances \<Rightarrow> Some (store_instances env instances st))"

text \<open>\<^verbatim>\<open>if arguments.BidPrice:\<close> holds of a price that is neither \<^verbatim>\<open>None\<close> nor 0.\<close>

definition submit ::
  "provider \<Rightarrow> arguments \<Rightarrow> string option \<Rightarrow> create_state \<Rightarrow> (error option \<times> create_state) option" where
  "submit env args user_data st =
     (case BidPrice args of
        None \<Rightarrow> submit_on_demand env args user_data st
      | Some price \<Rightarrow>
          if price = 0 then submit_on_demand env args user_data st
          else submit_spot env price args user_data st)"

text \<open>
  \<^verbatim>\<open>for p_id in pending_ids: self.env.ec2.Instance(p_id).terminate()\<close>; an exception
  of a terminate call leaves the loop.
\<close>

fun terminate_all :: "provider \<Rightarrow> string list \<Rightarrow> create_state \<Rightarrow> error option \<times> create_state" where
  "terminate_all env [] st = (None, st)"
| "terminate_all env (p_id # p_ids) st =
     (case terminate env p_id of
        Some e \<Rightarrow> (Some e, st)
      | None \<Rightarrow> terminate_all env p_ids (st\<lparr>terminated := terminated st @ [p_id]\<rparr>))"

text \<open>
  The handler \<^verbatim>\<open>except ClientError as e\<close>:
  \<^verbatim>\<open>
  if terminate_on_error:
      with pending_ids_lock:
          if pending_ids:
              for p_id in pending_ids:
                  self.env.ec2.Instance(p_id).terminate()
      raise
  else:
      with pending_ids_lock:
          pending_ids.remove( self.instance_id )
      raise
  \<close>
  \<^verbatim>\<open>set.remove\<close> raises KeyError for an element that is not in the set;
  \<^verbatim>\<open>self.instance_id\<close> is \<^verbatim>\<open>None\<close> while no instance is bound.  The result is the
  exception that leaves the handler.
\<close>

definition on_client_error :: "provider \<Rightarrow> bool \<Rightarrow> create_state \<Rightarrow> error \<times> create_state" where
  "on_client_error env terminate_on_error st =
     (if terminate_on_error then
        (case terminate_all env (pending_ids st) st of
           (Some e, st') \<Rightarrow> (e, st')
         | (None, st') \<Rightarrow> (ClientError, st'))
      else
        (case bound_instance st of
           None \<Rightarrow> (KeyError, st)
         | Some i \<Rightarrow>
             if i \<in> set (pending_ids st)
             then (ClientError, st\<lparr>pending_ids := removeAll i (pending_ids st)\<rparr>)
             else (KeyError, st)))"

text \<open>
  \<^verbatim>\<open>create(arguments, terminate_on_error, cluster_ordinal, user_data)\<close> of an engine to
  which \<open>bound\<close> is bound when the call starts: the exception raised or the list
  returned, and the final state.  Only ClientError is caught.  The loop that waits
  for each instance to run and to open its SSH port is taken to return.
\<close>

definition create ::
  "provider \<Rightarrow> string option \<Rightarrow> arguments \<Rightarrow> bool \<Rightarrow> int \<Rightarrow> string option
     \<Rightarrow> ((error + string list) \<times> create_state) option" where
  "create env bound args terminate_on_error ordinal user_data =
     (let st = \<lparr>engines = [], pending_ids = [], bound_instance = bound,
                cluster_ordinal = None, next_ordinal = ordinal, terminated = []\<rparr>
      in case submit env args user_data st of
           None \<Rightarrow> None
         | Some (None, st') \<Rightarrow> Some (Inr (engines st'), st')
         | Some (Some e, st') \<Rightarrow>
             (if e = ClientError then
                (case on_client_error env terminate_on_error st' of
                   (e', st'') \<Rightarrow> Some (Inl e', st''))
              else Some (Inl e, st')))"

text \<open>Providers and arguments for the concrete evaluations below.\<close>

definition open_request :: spot_request where
  "open_request = \<lparr>State = ''open'', Status_Code = ''pending-evaluation'', InstanceId = []\<rparr>"

definition cancelled_request :: spot_request where
  "cancelled_request = \<lparr>State = ''cancelled'', Status_Code = ''canceled-before-fulfillment'', InstanceId = []\<rparr>"

definition fulfilled_request :: "string \<Rightarrow> spot_request" where
  "fulfilled_request i = \<lparr>State = ''active'', Status_Code = ''fulfilled'', InstanceId = i\<rparr>"

text \<open>
  A provider that grants two spot requests, fulfils the first at once and leaves the
  second open; its resource constructor rejects a missing id with ValueError.
\<close>

definition slow_spot_market :: provider where
  "slow_spot_market =
     \<lparr>create_instances = (\<lambda>count. Inl ClientError),
      request_spot_instances = (\<lambda>price count. Inr [''sir-1'', ''sir-2'']),
      describe_spot_instance_requests =
        (\<lambda>req k. if req = ''sir-1'' then Inr [fulfilled_request ''i-1''] else Inr [open_request]),
      Instance = (\<lambda>i. case i of None \<Rightarrow> Inl ValueError | Some i \<Rightarrow> Inr i),
      create_tags = (\<lambda>i. None),
      terminate = (\<lambda>i. None)\<rparr>"

text \<open>A provider that refuses the on-demand request with a ClientError.\<close>

definition refusing_provider :: provider where
  "refusing_provider =
     \<lparr>create_instances = (\<lambda>count. Inl ClientError),
      request_spot_instances = (\<lambda>price count. Inl ClientError),
      describe_spot_instance_requests = (\<lambda>req k. Inr []),
      Instance = (\<lambda>i. case i of None \<Rightarrow> Inl ValueError | Some i \<Rightarrow> Inr i),
      create_tags = (\<lambda>i. None),
      terminate = (\<lambda>i. None)\<rparr>"

text \<open>A provider that launches five instances and fails to tag the third.\<close>

definition third_tag_fails :: provider where
  "third_tag_fails =
     \<lparr>create_instances = (\<lambda>count. Inr [''i-1'', ''i-2'', ''i-3'', ''i-4'', ''i-5'']),
      request_spot_instances = (\<lambda>price count. Inl ClientError),
      describe_spot_instance_requests = (\<lambda>req k. Inr []),
      Instance = (\<lambda>i. case i of None \<Rightarrow> Inl ValueError | Some i \<Rightarrow> Inr i),
      create_tags = (\<lambda>i. if i = ''i-3'' then Some ClientError else None),
      terminate = (\<lambda>i. None)\<rparr>"

section \<open>Results\<close>

subsection \<open>remaining\_billing\_interval\<close>

lemma py_fmod_one: "py_fmod x 1 = frac x"
  by (simp add: py_fmod_def frac_def)

lemma remaining_billing_interval_frac:
  "remaining_billing_interval l n = 1 - frac (real_of_int (n - l) / 3600000000)"
  by (simp add: remaining_billing_interval_def total_seconds_def py_fmod_one Let_def)

text \<open>
  C9, as stated, fails: at the instant of launch the elapsed time is 0 and the function
  returns 1.0, which is outside \<open>[0, 1)\<close>.
\<close>

theorem C9_counterexample:
  "\<not> (0 \<le> remaining_billing_interval 0 0 \<and> remaining_billing_interval 0 0 < 1)"
  by (simp add: remaining_billing_interval_frac)

text \<open>
  C9, amended: \<open>remaining_billing_interval\<close> returns exactly
  \<open>1.0 - ((elapsedSeconds / 3600) mod 1.0)\<close>; the value always lies in \<open>(0, 1]\<close> (it is 1.0
  at launch and at every whole hour, and never 0); for an instance launched less than
  0.15 hours (540 seconds) before the current time it lies in \<open>(0.85, 1.0]\<close>.
\<close>

theorem C9_remaining_billing_interval:
  "remaining_billing_interval launch now
     = 1 - frac (total_seconds (now - launch) / 3600)
   \<and> 0 < remaining_billing_interval launch now
   \<and> remaining_billing_interval launch now \<le> 1
   \<and> (launch \<le> now \<and> total_seconds (now - launch) < 540
        \<longrightarrow> 0.85 < remaining_billing_interval launch now)"
proof -
  let ?x = "total_seconds (now - launch) / 3600"
  have eq: "remaining_billing_interval launch now = 1 - frac ?x"
    by (simp add: remaining_billing_interval_def py_fmod_one Let_def)
  have lo: "0 \<le> frac ?x" and hi: "frac ?x < 1"
    by (rule frac_ge_0, rule frac_lt_1)
  have fresh: "frac ?x < 0.15" if "launch \<le> now" "total_seconds (now - launch) < 540"
  proof -
    have "0 \<le> ?x" using that(1) by (simp add: total_seconds_def)
    moreover have "?x < 0.15" using that(2) by simp
    ultimately have "frac ?x = ?x" by (simp add: frac_eq)
    then show ?thesis using \<open>?x < 0.15\<close> by simp
  qed
  show ?thesis using eq lo hi fresh by auto
qed

theorem C9_remaining_billing_interval_witness:
  "(0::int) \<le> 60000000 \<and> total_seconds (60000000 - 0) < 540
   \<and> 0.85 < remaining_billing_interval 0 60000000
   \<and> remaining_billing_interval 0 60000000 \<le> 1"
  using C9_remaining_billing_interval [of 0 60000000]
  by (simp add: total_seconds_def)

subsection \<open>Worker\<close>

lemma Worker_publicIP: "Worker ''publicIP'' = Some \<lparr>fget = ReturnSelfAttr ''publicIP'', fset = None\<rparr>"
  by (simp add: Worker_def Worker_properties_def)

lemma getattr_property_overflows:
  assumes "a \<in> set Worker_properties"
  shows "getattr Worker self depth a = Inl RuntimeError"
  using assms
proof (induction depth)
  case 0
  then show ?case by (simp add: Worker_def)
next
  case (Suc depth)
  then show ?case by (simp add: Worker_def)
qed

text \<open>
  C10, as stated, fails in its last part: a read of a property of \<open>Worker\<close> does not recurse
  without terminating.  Each getter call takes a stack frame, and at the recursion limit
  the read ends with RuntimeError.
\<close>

theorem C10_counterexample:
  "getattr Worker (Map.empty :: unit obj) recursion_limit ''publicIP'' = Inl RuntimeError"
  by (rule getattr_property_overflows) (simp add: Worker_properties_def)

text \<open>
  C10, amended: for every argument tuple, constructing a \<open>Worker\<close> raises AttributeError:
  the first assignment of \<open>__init__\<close> meets the getter-only property of the same name, so
  no \<open>Worker\<close> can be constructed.  And a read of any of the six properties, on any object
  of the class and with any number of stack frames left, never yields a value: the
  getter reads the property again until the recursion limit is reached, and the read
  raises RuntimeError.
\<close>

theorem C10_Worker_unconstructible:
  "Worker_new publicIP privateIP name' launchTime nodeType preemptible = Inl AttributeError
   \<and> getattr Worker self depth ''publicIP'' = Inl RuntimeError
   \<and> getattr Worker self depth ''privateIP'' = Inl RuntimeError
   \<and> getattr Worker self depth ''name'' = Inl RuntimeError
   \<and> getattr Worker self depth ''launchTime'' = Inl RuntimeError
   \<and> getattr Worker self depth ''nodeType'' = Inl RuntimeError
   \<and> getattr Worker self depth ''preemptible'' = Inl RuntimeError"
proof -
  have "Worker_new publicIP privateIP name' launchTime nodeType preemptible = Inl AttributeError"
    by (simp add: Worker_new_def Worker_init_def setattr_def and_then_def Worker_publicIP)
  moreover have "getattr Worker self depth a = Inl RuntimeError"
    if "a \<in> set Worker_properties" for a
    using that by (rule getattr_property_overflows)
  ultimately show ?thesis by (simp add: Worker_properties_def)
qed

subsection \<open>Shrinking the fleet\<close>

lemma exclude_busy_sound:
  "(inst, ni) \<in> set (exclude_busy False nodes) \<Longrightarrow>
     (inst, ni) \<in> set nodes \<and> (\<exists>info. ni = Some info \<and> workers info < 1)"
  by (induction nodes) (auto split: option.splits if_splits)

lemma in_set_slice_toD: "x \<in> set (slice_to xs n) \<Longrightarrow> x \<in> set xs"
  by (cases "0 \<le> n") (auto simp: slice_to_def dest: in_set_takeD)

lemma removeNodes_with_load_info:
  "removeNodes (Some get_nodes) rbi instances numNodes preemptible False =
     (int (length (slice_to (filter (\<lambda>nodeTuple. rbi (fst nodeTuple) \<le> 0.15)
         (sort_key (terminate_key rbi) (exclude_busy False
            (map (\<lambda>inst. (inst, get_nodes preemptible (private_ip_address inst))) instances))))
         numNodes)),
      if map fst (slice_to (filter (\<lambda>nodeTuple. rbi (fst nodeTuple) \<le> 0.15)
         (sort_key (terminate_key rbi) (exclude_busy False
            (map (\<lambda>inst. (inst, get_nodes preemptible (private_ip_address inst))) instances))))
         numNodes) \<noteq> []
      then [LogAndTerminate (map fst (slice_to (filter (\<lambda>nodeTuple. rbi (fst nodeTuple) \<le> 0.15)
         (sort_key (terminate_key rbi) (exclude_busy False
            (map (\<lambda>inst. (inst, get_nodes preemptible (private_ip_address inst))) instances))))
         numNodes))]
      else [])"
  unfolding removeNodes_def Let_def by simp

lemma removeNodes_without_load_info:
  "removeNodes None rbi instances numNodes preemptible force =
     (int (length instances),
      if instances \<noteq> [] then [LogAndTerminate (sort_key rbi instances)] else [])"
proof -
  have "sort_key rbi instances \<noteq> [] \<longleftrightarrow> instances \<noteq> []"
    by (metis length_sort length_0_conv)
  then show ?thesis by (simp add: removeNodes_def)
qed

text \<open>
  C2 does not hold of the code: without load information the sorted list is not cut to
  the requested count (the line that did so is commented out), and every instance is
  terminated.  Asked to remove one of three nodes, \<open>__removeNodes\<close> terminates all
  three; the branch with load information does truncate (\<open>nodesToTerminate[:numNodes]\<close>).
\<close>

theorem C2_terminates_every_instance:
  "removeNodes None fleet_rbi [node_a, node_b, node_c] 1 False False
     = (3, [LogAndTerminate [node_b, node_a, node_c]])
   \<and> set_node_count None fleet_rbi [node_a, node_b, node_c] no_addNodes 2 False False
     = (0, [LogAndTerminate [node_b, node_a, node_c]])"
  by (simp add: set_node_count_def removeNodes_def fleet_rbi_def
      node_a_def node_b_def node_c_def)

text \<open>
  C7: with a resource manager and without \<open>force\<close>, every instance handed to
  \<open>_logAndTerminate\<close> has load information reporting fewer than one active worker (an
  instance without load information is never chosen), and its remaining billing
  interval is at most 0.15.
\<close>

theorem C7_shrink_spares_busy_and_prepaid:
  assumes "\<not> force"
    and "LogAndTerminate victims
           \<in> set (snd (removeNodes (Some get_nodes) rbi instances numNodes preemptible force))"
    and "inst \<in> set victims"
  shows "(\<exists>info. get_nodes preemptible (private_ip_address inst) = Some info \<and> workers info < 1)
         \<and> rbi inst \<le> 0.15"
proof -
  define nodes where
    "nodes = map (\<lambda>inst. (inst, get_nodes preemptible (private_ip_address inst))) instances"
  define kept where
    "kept = filter (\<lambda>nodeTuple. rbi (fst nodeTuple) \<le> 0.15)
              (sort_key (terminate_key rbi) (exclude_busy False nodes))"
  define sel where "sel = map fst (slice_to kept numNodes)"
  from assms(1) have "force = False" by simp
  then have "snd (removeNodes (Some get_nodes) rbi instances numNodes preemptible force)
      = (if sel \<noteq> [] then [LogAndTerminate sel] else [])"
    unfolding sel_def kept_def nodes_def by (simp only: removeNodes_with_load_info snd_conv)
  with assms(2) have "victims = sel"
    by (simp split: if_splits)
  with assms(3) obtain ni where "(inst, ni) \<in> set (slice_to kept numNodes)"
    unfolding sel_def by auto
  then have in_kept: "(inst, ni) \<in> set kept"
    by (rule in_set_slice_toD)
  then have prepaid: "rbi inst \<le> 0.15"
    unfolding kept_def by simp
  from in_kept have "(inst, ni) \<in> set (exclude_busy False nodes)"
    unfolding kept_def by simp
  then have "(inst, ni) \<in> set nodes \<and> (\<exists>info. ni = Some info \<and> workers info < 1)"
    by (rule exclude_busy_sound)
  then have "\<exists>info. get_nodes preemptible (private_ip_address inst) = Some info \<and> workers info < 1"
    unfolding nodes_def by auto
  with prepaid show ?thesis by simp
qed

theorem C7_shrink_spares_busy_and_prepaid_witness:
  "\<not> False
   \<and> LogAndTerminate [node_a]
       \<in> set (snd (removeNodes (Some fleet_nodes) fleet_rbi [node_a, node_b, node_c] 2 False False))
   \<and> node_a \<in> set [node_a]
   \<and> (\<exists>info. fleet_nodes False (private_ip_address node_a) = Some info \<and> workers info < 1)
   \<and> fleet_rbi node_a \<le> 0.15"
proof -
  have sel: "LogAndTerminate [node_a]
      \<in> set (snd (removeNodes (Some fleet_nodes) fleet_rbi [node_a, node_b, node_c] 2 False False))"
    by (simp add: removeNodes_def fleet_nodes_def fleet_rbi_def node_a_def node_b_def
        node_c_def terminate_key_def slice_to_def Let_def)
  have mem: "node_a \<in> set [node_a]" by simp
  from C7_shrink_spares_busy_and_prepaid [OF _ sel mem] sel show ?thesis by simp
qed

subsection \<open>set\_node\_count\<close>

text \<open>
  C8, as stated, fails: a call does not always return the desired count.  With one node
  that runs a worker and a desired count of 0 (not forced), nothing is terminated and
  the call returns 1; the fleet is unchanged, so a second call returns 1 again.
\<close>

theorem C8_counterexample:
  "\<not> (fst (set_node_count (Some fleet_nodes) fleet_rbi [node_b] no_addNodes 0 False False) = 0)"
  by (simp add: set_node_count_def removeNodes_def fleet_nodes_def fleet_rbi_def node_b_def
      terminate_key_def slice_to_def Let_def)

lemma exclude_busy_subset: "set (exclude_busy force nodes) \<subseteq> set nodes"
  by (induction nodes) (auto split: option.splits if_splits)

lemma length_slice_to: "0 \<le> n \<Longrightarrow> int (length (slice_to xs n)) \<le> n"
  by (simp add: slice_to_def)

text \<open>
  What \<open>__removeNodes\<close> does in either branch: it hands a list of the given instances to
  one terminate call (none for an empty list) and returns its length; with load
  information the list is no longer than the number asked for.
\<close>

lemma removeNodes_shape:
  "\<exists>victims.
      removeNodes resMgr rbi instances numNodes preemptible force
        = (int (length victims), if victims \<noteq> [] then [LogAndTerminate victims] else [])
      \<and> set victims \<subseteq> set instances
      \<and> (resMgr \<noteq> None \<longrightarrow> 0 \<le> numNodes \<longrightarrow> int (length victims) \<le> numNodes)"
proof (cases resMgr)
  case None
  have "set (sort_key rbi instances) \<subseteq> set instances" by simp
  then show ?thesis
    using None by (intro exI [of _ "sort_key rbi instances"]) (simp add: removeNodes_def)
next
  case (Some get_nodes)
  define nodes where
    "nodes = map (\<lambda>inst. (inst, get_nodes preemptible (private_ip_address inst))) instances"
  define kept where
    "kept = (if \<not> force
             then filter (\<lambda>nodeTuple. rbi (fst nodeTuple) \<le> 0.15)
                    (sort_key (terminate_key rbi) (exclude_busy force nodes))
             else sort_key (terminate_key rbi) (exclude_busy force nodes))"
  define victims where "victims = map fst (slice_to kept numNodes)"
  have result: "removeNodes resMgr rbi instances numNodes preemptible force
      = (int (length victims), if victims \<noteq> [] then [LogAndTerminate victims] else [])"
    unfolding Some removeNodes_def victims_def kept_def nodes_def by (simp add: Let_def)
  have "set kept \<subseteq> set (exclude_busy force nodes)"
    unfolding kept_def by auto
  also have "\<dots> \<subseteq> set nodes" by (rule exclude_busy_subset)
  finally have "set kept \<subseteq> set nodes" .
  then have "set (slice_to kept numNodes) \<subseteq> set nodes"
    using in_set_slice_toD by fastforce
  then have within: "set victims \<subseteq> set instances"
    unfolding victims_def nodes_def by auto
  have bound: "int (length victims) \<le> numNodes" if "0 \<le> numNodes"
    unfolding victims_def using length_slice_to [OF that, of kept] by simp
  from result within bound show ?thesis by blast
qed

text \<open>
  C8, amended: \<open>set_node_count\<close> computes \<open>delta = desired - current\<close>, \<open>current\<close> being the
  number of workers in the cluster.  When \<open>delta > 0\<close> it makes one request for exactly
  \<open>delta\<close> more nodes and returns \<open>current\<close> plus the number reported as added.  When
  \<open>delta < 0\<close> it makes at most one terminate call, for instances of the cluster, and
  returns \<open>current\<close> minus their number; with load information they are at most
  \<open>- delta\<close>.  When \<open>delta\<close> is 0 it makes no provider call and returns the current count.
  So a call with desired count \<open>N\<close> made while the cluster has \<open>N\<close> workers (in
  particular a second call, after a first one that returned \<open>N\<close> and left as many workers
  as it returned) returns \<open>N\<close> and issues zero provider calls.
\<close>

theorem C8_set_node_count_delta:
  "(int (length workerInstances) = numNodes \<longrightarrow>
      set_node_count resMgr rbi workerInstances addNodes numNodes preemptible force
        = (numNodes, []))
   \<and> (int (length workerInstances) < numNodes \<longrightarrow>
      set_node_count resMgr rbi workerInstances addNodes numNodes preemptible force
        = (int (length workerInstances)
             + addNodes workerInstances (numNodes - int (length workerInstances)) preemptible,
           [AddNodes (numNodes - int (length workerInstances)) preemptible]))
   \<and> (numNodes < int (length workerInstances) \<longrightarrow>
      (\<exists>victims.
         set_node_count resMgr rbi workerInstances addNodes numNodes preemptible force
           = (int (length workerInstances) - int (length victims),
              if victims \<noteq> [] then [LogAndTerminate victims] else [])
         \<and> set victims \<subseteq> set workerInstances
         \<and> (resMgr \<noteq> None \<longrightarrow>
               int (length victims) \<le> int (length workerInstances) - numNodes)))
   \<and> (fst (set_node_count resMgr rbi workerInstances addNodes numNodes preemptible force) = numNodes
        \<and> int (length workerInstances')
            = fst (set_node_count resMgr rbi workerInstances addNodes numNodes preemptible force)
      \<longrightarrow> set_node_count resMgr' rbi' workerInstances' addNodes' numNodes preemptible force'
            = (numNodes, []))"
proof (intro conjI impI)
  assume "int (length workerInstances) = numNodes"
  then show "set_node_count resMgr rbi workerInstances addNodes numNodes preemptible force
      = (numNodes, [])"
    by (simp add: set_node_count_def)
next
  assume "int (length workerInstances) < numNodes"
  then show "set_node_count resMgr rbi workerInstances addNodes numNodes preemptible force
      = (int (length workerInstances)
           + addNodes workerInstances (numNodes - int (length workerInstances)) preemptible,
         [AddNodes (numNodes - int (length workerInstances)) preemptible])"
    by (simp add: set_node_count_def Let_def)
next
  assume less: "numNodes < int (length workerInstances)"
  let ?k = "int (length workerInstances) - numNodes"
  from removeNodes_shape [of resMgr rbi workerInstances ?k preemptible force]
  obtain victims where
    r: "removeNodes resMgr rbi workerInstances ?k preemptible force
        = (int (length victims), if victims \<noteq> [] then [LogAndTerminate victims] else [])"
    and within: "set victims \<subseteq> set workerInstances"
    and bound: "resMgr \<noteq> None \<longrightarrow> 0 \<le> ?k \<longrightarrow> int (length victims) \<le> ?k"
    by blast
  have "set_node_count resMgr rbi workerInstances addNodes numNodes preemptible force
      = (int (length workerInstances) - int (length victims),
         if victims \<noteq> [] then [LogAndTerminate victims] else [])"
    using less r by (simp add: set_node_count_def Let_def)
  moreover have "resMgr \<noteq> None \<longrightarrow> int (length victims) \<le> ?k"
    using bound less by simp
  ultimately show "\<exists>victims.
      set_node_count resMgr rbi workerInstances addNodes numNodes preemptible force
        = (int (length workerInstances) - int (length victims),
           if victims \<noteq> [] then [LogAndTerminate victims] else [])
      \<and> set victims \<subseteq> set workerInstances
      \<and> (resMgr \<noteq> None \<longrightarrow>
            int (length victims) \<le> int (length workerInstances) - numNodes)"
    using within by blast
next
  assume "fst (set_node_count resMgr rbi workerInstances addNodes numNodes preemptible force) = numNodes
      \<and> int (length workerInstances')
          = fst (set_node_count resMgr rbi workerInstances addNodes numNodes preemptible force)"
  then have "int (length workerInstances') = numNodes" by simp
  then show "set_node_count resMgr' rbi' workerInstances' addNodes' numNodes preemptible force'
      = (numNodes, [])"
    by (simp add: set_node_count_def)
qed

theorem C8_set_node_count_delta_witness:
  "int (length [node_a, node_b]) = 2
   \<and> set_node_count (Some fleet_nodes) fleet_rbi [node_a, node_b] no_addNodes 2 False False
       = (2, [])
   \<and> int (length [node_a, node_b]) < 5
   \<and> set_node_count None fleet_rbi [node_a, node_b] all_addNodes 5 False False
       = (5, [AddNodes 3 False])
   \<and> 2 < int (length [node_a, node_b, node_c])
   \<and> (\<exists>victims.
         set_node_count (Some fleet_nodes) fleet_rbi [node_a, node_b, node_c] no_addNodes 2 False False
           = (3 - int (length victims), if victims \<noteq> [] then [LogAndTerminate victims] else [])
         \<and> set victims \<subseteq> set [node_a, node_b, node_c]
         \<and> int (length victims) \<le> 1)
   \<and> fst (set_node_count (Some fleet_nodes) fleet_rbi [node_a, node_b, node_c] no_addNodes 2 False False) = 2
   \<and> set_node_count (Some fleet_nodes) fleet_rbi [node_b, node_c] no_addNodes 2 False False
       = (2, [])"
proof -
  have first: "set_node_count (Some fleet_nodes) fleet_rbi [node_a, node_b, node_c] no_addNodes 2 False False
      = (2, [LogAndTerminate [node_a]])"
    by (simp add: set_node_count_def removeNodes_def fleet_nodes_def fleet_rbi_def
        node_a_def node_b_def node_c_def terminate_key_def slice_to_def Let_def)
  have at_size: "set_node_count (Some fleet_nodes) fleet_rbi [node_a, node_b] no_addNodes 2 False False
      = (2, [])"
    using C8_set_node_count_delta
      [where workerInstances = "[node_a, node_b]" and numNodes = 2 and resMgr = "Some fleet_nodes"
         and rbi = fleet_rbi and addNodes = no_addNodes and preemptible = False and force = False]
    by simp
  have grow: "set_node_count None fleet_rbi [node_a, node_b] all_addNodes 5 False False
      = (5, [AddNodes 3 False])"
    using C8_set_node_count_delta
      [where workerInstances = "[node_a, node_b]" and numNodes = 5 and resMgr = None
         and rbi = fleet_rbi and addNodes = all_addNodes and preemptible = False and force = False]
    by (simp add: all_addNodes_def)
  note shrink_twice = C8_set_node_count_delta
      [where workerInstances = "[node_a, node_b, node_c]" and numNodes = 2
         and resMgr = "Some fleet_nodes" and rbi = fleet_rbi and addNodes = no_addNodes
         and preemptible = False and force = False and workerInstances' = "[node_b, node_c]"
         and resMgr' = "Some fleet_nodes" and rbi' = fleet_rbi and addNodes' = no_addNodes
         and force' = False]
  have shrink: "\<exists>victims.
         set_node_count (Some fleet_nodes) fleet_rbi [node_a, node_b, node_c] no_addNodes 2 False False
           = (3 - int (length victims), if victims \<noteq> [] then [LogAndTerminate victims] else [])
         \<and> set victims \<subseteq> set [node_a, node_b, node_c]
         \<and> int (length victims) \<le> 1"
    using shrink_twice by simp
  have again: "set_node_count (Some fleet_nodes) fleet_rbi [node_b, node_c] no_addNodes 2 False False
      = (2, [])"
    using shrink_twice first by simp
  from first at_size grow shrink again show ?thesis by simp
qed

subsection \<open>Spot bidding\<close>

lemma first_min_by_mem: "first_min_by f m xs \<in> set (m # xs)"
  by (induction xs arbitrary: m) auto

lemma py_min_key_mem: "py_min_key f xs = Inr x \<Longrightarrow> x \<in> set xs"
  using first_min_by_mem [of f]
  by (cases xs) (auto simp: py_min_key_def)

lemma and_then_Inr: "and_then r f = Inr y \<longleftrightarrow> (\<exists>x. r = Inr x \<and> f x = Inr y)"
  by (cases r) (simp_all add: and_then_def)

lemma rate_zone_names:
  assumes "rate_zone spot_hist bid zone (zh, ov, un) = Inr (zh', ov', un')"
  shows "name ` set (ov' @ un') = insert zone (name ` set (ov @ un))"
  using assms
  by (auto simp: rate_zone_def and_then_Inr Let_def split: list.splits if_splits)

lemma rate_zones_names:
  "rate_zones spot_hist bid zones (zh, ov, un) = Inr (zh', ov', un')
   \<Longrightarrow> name ` set (ov' @ un') = set zones \<union> name ` set (ov @ un)"
proof (induction zones arbitrary: zh ov un)
  case Nil
  then show ?case by simp
next
  case (Cons zone zones)
  from Cons.prems obtain st where st: "rate_zone spot_hist bid zone (zh, ov, un) = Inr st"
    and rest: "rate_zones spot_hist bid zones st = Inr (zh', ov', un')"
    by (auto simp: and_then_Inr)
  obtain zh1 ov1 un1 where st_eq: "st = (zh1, ov1, un1)"
    by (cases st) auto
  have "name ` set (ov1 @ un1) = insert zone (name ` set (ov @ un))"
    using st unfolding st_eq by (rule rate_zone_names)
  moreover have "name ` set (ov' @ un') = set zones \<union> name ` set (ov1 @ un1)"
    using rest unfolding st_eq by (rule Cons.IH)
  ultimately show ?case by auto
qed

lemma optimize_spot_bid_zone:
  assumes "optimize_spot_bid spot_hist zones bid = Inr (zone, bid')"
  shows "zone \<in> set zones"
proof -
  from assms obtain zh ov un best where
    rz: "rate_zones spot_hist bid zones ([], [], []) = Inr (zh, ov, un)"
    and best: "py_min_key price_deviation (if un \<noteq> [] then un else ov) = Inr best"
    and z: "zone = name best"
    by (auto simp: optimize_spot_bid_def and_then_Inr Let_def split: option.splits)
  from best have "best \<in> set (ov @ un)"
    by (auto dest: py_min_key_mem split: if_splits)
  then have "name best \<in> name ` set (ov @ un)" by (rule imageI)
  also have "\<dots> = set zones" using rate_zones_names [OF rz] by simp
  finally show ?thesis using z by simp
qed

lemma py_round_mono: "x \<le> y \<Longrightarrow> py_round x n \<le> py_round y n"
proof -
  assume xy: "x \<le> y"
  have pos: "(0::real) < 10 ^ n" by simp
  consider "0 \<le> x" | "x < 0" "0 \<le> y" | "x < 0" "y < 0" by linarith
  then show ?thesis
  proof cases
    case 1
    then have "0 \<le> y" using xy by simp
    have "x * 10 ^ n + 1 / 2 \<le> y * 10 ^ n + 1 / 2"
      using xy pos by (simp add: mult_right_mono)
    then have "\<lfloor>x * 10 ^ n + 1 / 2\<rfloor> \<le> \<lfloor>y * 10 ^ n + 1 / 2\<rfloor>"
      by (rule floor_mono)
    then have "real_of_int \<lfloor>x * 10 ^ n + 1 / 2\<rfloor> / 10 ^ n \<le> real_of_int \<lfloor>y * 10 ^ n + 1 / 2\<rfloor> / 10 ^ n"
      using pos by (simp add: divide_right_mono)
    then show ?thesis using 1 \<open>0 \<le> y\<close> by (simp add: py_round_def)
  next
    case 2
    have "0 \<le> (- x) * 10 ^ n" using 2(1) by (intro mult_nonneg_nonneg) simp_all
    then have "(0::real) \<le> - x * 10 ^ n + 1 / 2" by simp
    then have "0 \<le> \<lfloor>- x * 10 ^ n + 1 / 2\<rfloor>" by simp
    then have "0 \<le> real_of_int \<lfloor>- x * 10 ^ n + 1 / 2\<rfloor> / 10 ^ n" by simp
    moreover have "py_round x n = - (real_of_int \<lfloor>- x * 10 ^ n + 1 / 2\<rfloor> / 10 ^ n)"
      using 2(1) by (simp add: py_round_def)
    ultimately have a: "py_round x n \<le> 0" by linarith
    have "0 \<le> y * 10 ^ n" using 2(2) by (intro mult_nonneg_nonneg) simp_all
    then have "(0::real) \<le> y * 10 ^ n + 1 / 2" by simp
    then have "0 \<le> \<lfloor>y * 10 ^ n + 1 / 2\<rfloor>" by simp
    then have "0 \<le> real_of_int \<lfloor>y * 10 ^ n + 1 / 2\<rfloor> / 10 ^ n" by simp
    moreover have "py_round y n = real_of_int \<lfloor>y * 10 ^ n + 1 / 2\<rfloor> / 10 ^ n"
      using 2(2) by (simp add: py_round_def)
    ultimately have b: "0 \<le> py_round y n" by linarith
    from a b show ?thesis by linarith
  next
    case 3
    have "- y * 10 ^ n + 1 / 2 \<le> - x * 10 ^ n + 1 / 2"
      using xy pos by (simp add: mult_right_mono)
    then have "\<lfloor>- y * 10 ^ n + 1 / 2\<rfloor> \<le> \<lfloor>- x * 10 ^ n + 1 / 2\<rfloor>"
      by (rule floor_mono)
    then have "real_of_int \<lfloor>- y * 10 ^ n + 1 / 2\<rfloor> / 10 ^ n \<le> real_of_int \<lfloor>- x * 10 ^ n + 1 / 2\<rfloor> / 10 ^ n"
      using pos by (simp add: divide_right_mono)
    then show ?thesis using 3 by (simp add: py_round_def)
  qed
qed

lemma py_round_of_int: "py_round (real_of_int k / 10 ^ n) n = real_of_int k / 10 ^ n"
proof (cases "0 \<le> k")
  case True
  have "\<lfloor>real_of_int k + 1 / 2\<rfloor> = k" by linarith
  then show ?thesis using True by (simp add: py_round_def)
next
  case False
  have "\<lfloor>- real_of_int k + 1 / 2\<rfloor> = - k" by linarith
  then show ?thesis using False by (simp add: py_round_def)
qed

lemma py_round_idem: "py_round (py_round x n) n = py_round x n"
proof -
  obtain k :: int where "py_round x n = real_of_int k / 10 ^ n"
  proof (cases "0 \<le> x")
    case True
    then show ?thesis using that [of "\<lfloor>x * 10 ^ n + 1 / 2\<rfloor>"] by (simp add: py_round_def)
  next
    case False
    then show ?thesis using that [of "- \<lfloor>- x * 10 ^ n + 1 / 2\<rfloor>"] by (simp add: py_round_def)
  qed
  then show ?thesis by (simp only: py_round_of_int)
qed

lemma first_min_by_le: "first_min_by (\<lambda>x. x) m xs \<le> m \<and> (\<forall>x \<in> set xs. first_min_by (\<lambda>x. x) m xs \<le> x)"
proof (induction xs arbitrary: m)
  case Nil
  then show ?case by simp
next
  case (Cons a xs)
  let ?m' = "if a < m then a else m"
  from Cons.IH [of ?m'] have ih: "first_min_by (\<lambda>x. x) ?m' xs \<le> ?m'"
    "\<forall>x \<in> set xs. first_min_by (\<lambda>x. x) ?m' xs \<le> x" by simp_all
  have "?m' \<le> m" "?m' \<le> a" by simp_all
  with ih show ?case by auto
qed

lemma sum_list_lower: "(\<forall>x \<in> set xs. (m::real) \<le> x) \<Longrightarrow> m * real (length xs) \<le> sum_list xs"
  by (induction xs) (auto simp: algebra_simps)

lemma py_min_le_mean:
  assumes "py_min xs = Inr m" and "mean xs = Inr a"
  shows "m \<le> a"
proof -
  from assms(1) obtain y ys where xs: "xs = y # ys" and m: "m = first_min_by (\<lambda>x. x) y ys"
    by (cases xs) (auto simp: py_min_def py_min_key_def)
  have "\<forall>x \<in> set xs. m \<le> x"
    using first_min_by_le [of y ys] unfolding xs m by auto
  then have "m * real (length xs) \<le> sum_list xs" by (rule sum_list_lower)
  moreover have "0 < real (length xs)" using xs by simp
  ultimately have "m \<le> sum_list xs / real (length xs)"
    by (simp add: pos_le_divide_eq)
  then show ?thesis using assms(2) xs by (simp add: mean_def)
qed

lemma check_spot_prices_min_le_avg:
  assumes "check_spot_prices spot_hist = Inr (Some (sm, avg))"
  shows "sm \<le> avg"
proof -
  define sh where "sh = map (\<lambda>pr. py_round (SpotPrice pr) 4) spot_hist"
  from assms obtain a where a: "mean sh = Inr a" and sm: "py_min sh = Inr sm"
    and avg: "avg = py_round a 4"
    unfolding check_spot_prices_def sh_def [symmetric]
    by (auto simp: and_then_Inr Let_def split: if_splits)
  from sm have "sm \<in> set sh" unfolding py_min_def by (rule py_min_key_mem)
  then obtain p where "sm = py_round p 4" unfolding sh_def by auto
  then have "py_round sm 4 = sm" by (simp only: py_round_idem)
  moreover have "py_round sm 4 \<le> py_round a 4"
    using py_min_le_mean [OF sm a] by (rule py_round_mono)
  ultimately show ?thesis using avg by simp
qed

lemma optimize_spot_bid_bound:
  assumes "optimize_spot_bid spot_hist zones bid = Inr (zone, bid')"
    and "check_spot_prices spot_hist = Inr (Some (sm, avg))"
    and "0 < avg"
  shows "bid' \<le> 2 * avg"
proof -
  have le: "sm \<le> avg" using assms(2) by (rule check_spot_prices_min_le_avg)
  from assms(1,2) have "bid' =
      (let b = (if bid > avg * 2 then avg + real_of_int (25 div 100) * avg else bid)
       in if b \<le> sm then sm + real_of_int (25 div 100) * sm else b)"
    by (auto simp: optimize_spot_bid_def and_then_Inr Let_def)
  then show ?thesis using le assms(3) by (auto simp: Let_def split: if_splits)
qed

lemma sqrt_1_25: "sqrt (1 / 25) = 1 / 5"
proof -
  have "sqrt ((1 / 5)\<^sup>2) = \<bar>1 / 5 :: real\<bar>"
    by (rule real_sqrt_abs)
  then show ?thesis
    by (simp add: power2_eq_square)
qed

lemma sqrt_2_75: "sqrt (2 / 75) < 1 / 5"
proof -
  have "sqrt (2 / 75) < sqrt (1 / 25)" by simp
  then show ?thesis by (simp only: sqrt_1_25)
qed

text \<open>
  C3 does not hold of the code.  The list \<open>zone_hists\<close> is never emptied between zones,
  so from the second zone on the deviation is computed over the samples of all zones
  seen so far and the "recent price" is the first sample of the first zone.  With zoneA
  at 0.10 (most recent) and 0.50, zoneB at 0.30 and a bid of 0.20, the code rates zoneB
  as under-bid with deviation \<open>sqrt (2/75)\<close> and returns it; rated on its own samples
  zoneB is over-bid (0.30 \<ge> 0.20) and the only under-bid zone is zoneA.
\<close>

theorem C3_zone_rated_on_other_zones_samples:
  "optimize_spot_bid week_b [''zoneA'', ''zoneB''] 0.2 = Inr (''zoneB'', 0.2)
   \<and> spec_preferred_zone week_b [''zoneA'', ''zoneB''] 0.2 = Inr ''zoneA''"
proof -
  have "optimize_spot_bid week_b [''zoneA'', ''zoneB''] 0.2 = Inr (''zoneB'', 0.2)"
    using sqrt_2_75
    by (simp add: optimize_spot_bid_def rate_zone_def week_b_def std_dev_def mean_def
        check_spot_prices_def py_min_def py_min_key_def and_then_def py_round_def
        power2_eq_square sqrt_1_25 Let_def)
  moreover have "spec_preferred_zone week_b [''zoneA'', ''zoneB''] 0.2 = Inr ''zoneA''"
    by (simp add: spec_preferred_zone_def spec_rate_zone_def week_b_def std_dev_def mean_def
        py_min_key_def and_then_def power2_eq_square Let_def)
  ultimately show ?thesis by (rule conjI)
qed

text \<open>
  C4 does not hold of the code.  \<open>25/100\<close> divides two integers and is 0, so the seed is
  the highest price itself.  For the history of the claim (zoneA: 0.10, 0.12, 0.11, the
  last the most recent; zoneB: 0.50) the seed is 0.50, not 0.375; being more than twice
  the average 0.2075, it is then cut to that average (the 25 percent on top are lost to
  the same division).
\<close>

theorem C4_seed_is_highest_price:
  "seed_bid week_a = Inr 0.5
   \<and> fix_spot week_a [''zoneA'', ''zoneB''] None
       = Inr \<lparr>name = ''zoneA'', price_deviation = 0.2075\<rparr>"
proof -
  have "seed_bid week_a = Inr 0.5"
    by (simp add: seed_bid_def week_a_def py_max_def and_then_def py_round_def)
  moreover have "fix_spot week_a [''zoneA'', ''zoneB''] None
       = Inr \<lparr>name = ''zoneA'', price_deviation = 0.2075\<rparr>"
    by (simp add: fix_spot_def seed_bid_def py_max_def optimize_spot_bid_def rate_zone_def
        week_a_def std_dev_def mean_def check_spot_prices_def py_min_def py_min_key_def
        and_then_def py_round_def power2_eq_square Let_def)
  ultimately show ?thesis by (rule conjI)
qed

text \<open>
  C5 does not hold of the code, by the same integer division: a bid above twice the
  average is set to the average, not to 1.25 times the average, and a bid at or below
  the minimum is set to the minimum, not to 1.25 times the minimum.  With samples 0.30
  and 0.10 (average 0.20, minimum 0.10) a bid of 1.00 becomes 0.20 and a bid of 0.05
  becomes 0.10.  The bound \<open>bid' \<le> 2 * avg\<close> does hold (\<open>optimize_spot_bid_bound\<close>).
\<close>

theorem C5_correction_drops_the_quarter:
  "optimize_spot_bid week_c [''zoneA''] 1.0 = Inr (''zoneA'', 0.2)
   \<and> optimize_spot_bid week_c [''zoneA''] 0.05 = Inr (''zoneA'', 0.1)"
proof -
  have "optimize_spot_bid week_c [''zoneA''] 1.0 = Inr (''zoneA'', 0.2)"
    by (simp add: optimize_spot_bid_def rate_zone_def week_c_def std_dev_def mean_def
        check_spot_prices_def py_min_def py_min_key_def and_then_def py_round_def
        power2_eq_square Let_def)
  moreover have "optimize_spot_bid week_c [''zoneA''] 0.05 = Inr (''zoneA'', 0.1)"
    by (simp add: optimize_spot_bid_def rate_zone_def week_c_def std_dev_def mean_def
        check_spot_prices_def py_min_def py_min_key_def and_then_def py_round_def
        power2_eq_square Let_def)
  ultimately show ?thesis by (rule conjI)
qed

subsection \<open>Waiting for a spot request\<close>

lemma poll_cancelled_diverges:
  "poll_spot_request (\<lambda>k. Inr [cancelled_request]) k c = None" if "c < 10"
proof -
  have "d = (\<lambda>k. Inr [cancelled_request]) \<longrightarrow> c < 10 \<longrightarrow> False"
    if "poll_spot_request d k c = Some y" for d y
    using that
  proof (induction rule: poll_spot_request.raw_induct [rotated 1, consumes 1])
    case (1 poll d k c y)
    then show ?case
      by (auto simp: cancelled_request_def split: if_splits)
  qed
  then show ?thesis using that
    by (cases "poll_spot_request (\<lambda>k. Inr [cancelled_request]) k c") auto
qed

lemma slow_spot_market_simps:
  "request_spot_instances slow_spot_market price n = Inr [''sir-1'', ''sir-2'']"
  "Instance slow_spot_market None = Inl ValueError"
  "Instance slow_spot_market (Some i) = Inr i"
  "create_tags slow_spot_market i = None"
  by (simp_all add: slow_spot_market_def)

lemma slow_spot_market_first:
  "wait_spot_requests_fullfilled (describe_spot_instance_requests slow_spot_market ''sir-1'')
     = Some (Inr (Some ''i-1''))"
  by (simp add: wait_spot_requests_fullfilled_def poll_spot_request.simps
      slow_spot_market_def fulfilled_request_def)

lemma slow_spot_market_second:
  "wait_spot_requests_fullfilled (describe_spot_instance_requests slow_spot_market ''sir-2'')
     = Some (Inr None)"
  by (simp add: wait_spot_requests_fullfilled_def poll_spot_request.simps
      slow_spot_market_def open_request_def)

text \<open>
  What \<open>create\<close> makes of a wait that returned \<^verbatim>\<open>None\<close>: the value goes to
  \<^verbatim>\<open>env.ec2.Instance\<close>; with a provider library that rejects it by an exception other
  than ClientError, \<open>create\<close> fails with that exception, the handler does not run and the
  instance bound for the first request is not terminated.
\<close>

lemma create_after_unfulfilled_request:
  "create slow_spot_market None \<lparr>BidPrice = Some 0.2, MaxCount = 2\<rparr> True 0 (Some ''init.sh'')
   = Some (Inl ValueError,
       \<lparr>engines = [''i-1''], pending_ids = [''i-1''], bound_instance = Some ''i-1'',
        cluster_ordinal = Some 0, next_ordinal = 1, terminated = []\<rparr>)"
  by (simp add: create_def submit_def submit_spot_def user_text_unbound_def
      slow_spot_market_first slow_spot_market_second slow_spot_market_simps
      store_instance_def Let_def)

text \<open>
  C6 does not hold of the code.  A request that is still open after ten polls makes
  \<open>wait_spot_requests_fullfilled\<close> fall off the end of its loop and return \<^verbatim>\<open>None\<close>: no
  timeout error is raised.  And the bound counts only answers in state \<open>open\<close>: for a
  request in any state other than \<open>failed\<close>, \<open>open\<close> and fulfilled \<open>active\<close> (a cancelled
  one, say) the counter never moves and the loop does not end.
\<close>

theorem C6_no_timeout_error:
  "wait_spot_requests_fullfilled (\<lambda>k. Inr [open_request]) = Some (Inr None)
   \<and> wait_spot_requests_fullfilled (\<lambda>k. Inr [cancelled_request]) = None"
proof -
  have "wait_spot_requests_fullfilled (\<lambda>k. Inr [open_request]) = Some (Inr None)"
    by (simp add: wait_spot_requests_fullfilled_def poll_spot_request.simps open_request_def)
  moreover have "wait_spot_requests_fullfilled (\<lambda>k. Inr [cancelled_request]) = None"
    by (simp add: wait_spot_requests_fullfilled_def poll_cancelled_diverges)
  ultimately show ?thesis by (rule conjI)
qed

subsection \<open>Engine.create\<close>

lemma terminate_all_succeeds:
  "(\<forall>p \<in> set ps. terminate env p = None)
   \<Longrightarrow> terminate_all env ps st = (None, st\<lparr>terminated := terminated st @ ps\<rparr>)"
  by (induction ps arbitrary: st) simp_all

text \<open>
  With \<open>terminate_on_error\<close>, a ClientError of the submission or of a binding makes
  \<open>create\<close> terminate every pending instance (when the terminate calls succeed) and
  raise the ClientError again.
\<close>

lemma create_rolls_back:
  assumes "submit env args user_data
             \<lparr>engines = [], pending_ids = [], bound_instance = bound,
              cluster_ordinal = None, next_ordinal = ordinal, terminated = []\<rparr>
           = Some (Some ClientError, st)"
    and "\<forall>p \<in> set (pending_ids st). terminate env p = None"
  shows "create env bound args True ordinal user_data
         = Some (Inl ClientError, st\<lparr>terminated := terminated st @ pending_ids st\<rparr>)"
  using assms(1) terminate_all_succeeds [OF assms(2), of st]
  by (simp add: create_def on_client_error_def Let_def)

text \<open>
  Without \<open>terminate_on_error\<close>, and when the engine's own instance is pending (as after
  a failed binding), only that id leaves the set, no instance is terminated and the
  ClientError is raised again.
\<close>

lemma create_keeps_instances:
  assumes "submit env args user_data
             \<lparr>engines = [], pending_ids = [], bound_instance = bound,
              cluster_ordinal = None, next_ordinal = ordinal, terminated = []\<rparr>
           = Some (Some ClientError, st)"
    and "bound_instance st = Some i" and "i \<in> set (pending_ids st)"
  shows "create env bound args False ordinal user_data
         = Some (Inl ClientError, st\<lparr>pending_ids := removeAll i (pending_ids st)\<rparr>)"
  using assms by (simp add: create_def on_client_error_def Let_def)

text \<open>The third of five instances fails to bind: the three pending ones are terminated.\<close>

lemma create_third_of_five_fails:
  "create third_tag_fails None \<lparr>BidPrice = None, MaxCount = 5\<rparr> True 0 (Some ''init.sh'')
   = Some (Inl ClientError,
       \<lparr>engines = [''i-1'', ''i-2''], pending_ids = [''i-3'', ''i-2'', ''i-1''],
        bound_instance = Some ''i-3'', cluster_ordinal = Some 2, next_ordinal = 3,
        terminated = [''i-3'', ''i-2'', ''i-1'']\<rparr>)"
  by (simp add: create_def submit_def submit_on_demand_def user_text_unbound_def
      on_client_error_def store_instance_def third_tag_fails_def Let_def)

text \<open>
  C1 does not hold of the code.  When the submission itself fails, nothing is pending
  and no instance is bound, so with \<open>terminate_on_error = False\<close> the handler's
  \<^verbatim>\<open>pending_ids.remove( self.instance_id )\<close> looks for \<^verbatim>\<open>None\<close> in an empty set and raises
  KeyError: the ClientError is not raised again.
\<close>

theorem C1_submission_error_replaced_by_KeyError:
  "create refusing_provider None \<lparr>BidPrice = None, MaxCount = 5\<rparr> False 0 (Some ''init.sh'')
   = Some (Inl KeyError,
       \<lparr>engines = [], pending_ids = [], bound_instance = None,
        cluster_ordinal = None, next_ordinal = 0, terminated = []\<rparr>)"
  by (simp add: create_def submit_def submit_on_demand_def user_text_unbound_def
      on_client_error_def refusing_provider_def Let_def)

end
